theory Spec2Isabelle
  imports Main "HOL-Library.Sublist"
begin

section \<open>Python values, exceptions and the host\<close>

text \<open>
  The script \<^verbatim>\<open>deploy_mxs_vm.py\<close> is one class, \<^verbatim>\<open>Stage1\<close>, whose methods call the
  operating system: external commands, the file system, the console and the logger.
  Each method is embedded as a function from a world to an outcome and a new world.
  An outcome is \<open>Inr\<close> of the returned value or \<open>Inl\<close> of the Python exception that
  leaves the method. The methods that nothing calls (\<^verbatim>\<open>clear_directory\<close>,
  \<^verbatim>\<open>check_disk_space\<close>, \<^verbatim>\<open>verify_user_groups\<close>, \<^verbatim>\<open>validate_uefi_path\<close>,
  \<^verbatim>\<open>allocate_resources\<close>, \<^verbatim>\<open>validate_resource_allocation\<close>,
  \<^verbatim>\<open>enable_default_network_for_virsh\<close>) are left out.
\<close>

type_synonym path = string

datatype level = DEBUG | INFO | WARNING | ERROR

text \<open>
  The exceptions the script distinguishes. \<open>SystemExit\<close> is raised by \<^verbatim>\<open>sys.exit\<close> and is
  not an \<^verbatim>\<open>Exception\<close>: no \<^verbatim>\<open>except Exception\<close> clause catches it. \<open>Exception msg\<close>
  stands for every other exception class, with \<open>msg\<close> its \<^verbatim>\<open>str\<close>.
\<close>

datatype exn =
    SystemExit int
  | CalledProcessError "string list" int string
  | PermissionError string
  | FileExistsError string
  | ShutilError "(string \<times> string \<times> string) list"
  | Exception string

fun is_Exception :: "exn \<Rightarrow> bool" where
  "is_Exception (SystemExit _) = False"
| "is_Exception _ = True"

text \<open>
  What starting an external command gives: it ran and exited with a return code, its
  standard output and its standard error, or it could not be started at all
  (\<^verbatim>\<open>subprocess\<close> then raises an \<^verbatim>\<open>OSError\<close>).
\<close>

datatype spawn = Exited int string string | SpawnError string

text \<open>
  The world: the file system (regular files with their content, directories, mounts
  as pairs of mount point and mounted image), the six temporary directories held by
  the \<^verbatim>\<open>Stage1\<close> object, the console, the log and the trace of external commands, and
  the host's answers that the script cannot influence: the outcome of the \<open>n\<close>-th external
  command (\<open>tool\<close>), the tree inside an image file, the next temporary directory name,
  what a URL serves, the user's name, \<^verbatim>\<open>os.path.expanduser\<close>, \<^verbatim>\<open>urlsplit(url).path\<close>, the
  outcome of \<^verbatim>\<open>shutil.copytree\<close>, directories that cannot be listed, the text of
  \<^verbatim>\<open>traceback.format_exc()\<close>, and the host's resources.
\<close>

record world =
  files :: "(path \<times> string) list"
  dirs :: "path list"
  mounts :: "(path \<times> path) list"
  temp_dir :: path
  wimtemp_dir :: path
  drivers_dir :: path
  windows_dir :: path
  virtio_mount_dir :: path
  windows_mount_dir :: path
  tmp_count :: nat
  stdin :: "string list"
  stdout :: "string list"
  log :: "(level \<times> string) list"
  trace :: "string list list"
  tool :: "nat \<Rightarrow> string list \<Rightarrow> spawn"
  image_tree :: "path \<Rightarrow> (path \<times> string) list"
  mkdtemp :: "nat \<Rightarrow> path"
  web :: "string \<Rightarrow> string option"
  getuser :: string
  expanduser :: "string \<Rightarrow> string"
  urlsplit_path :: "string \<Rightarrow> string"
  copytree_error :: "path \<Rightarrow> path \<Rightarrow> exn option"
  unreadable :: "path \<Rightarrow> bool"
  format_exc :: string
  mido_output :: "string option"
  mem_available_kb :: "int option"
  cpu_count :: int
  f_frsize :: int
  f_bavail :: int
  lscpu_fields :: "(int \<times> int \<times> int) option"

type_synonym 'a io = "world \<Rightarrow> (exn + 'a) \<times> world"

subsection \<open>Sequencing, try/except, try/finally\<close>

definition ret :: "'a \<Rightarrow> 'a io" where
  "ret x w = (Inr x, w)"

definition raise :: "exn \<Rightarrow> 'a io" where
  "raise e w = (Inl e, w)"

definition bind :: "'a io \<Rightarrow> ('a \<Rightarrow> 'b io) \<Rightarrow> 'b io" where
  "bind m f w = (case m w of (Inl e, w') \<Rightarrow> (Inl e, w') | (Inr x, w') \<Rightarrow> f x w')"

definition seq :: "'a io \<Rightarrow> 'b io \<Rightarrow> 'b io" where
  "seq m n = bind m (\<lambda>_. n)"

text \<open>\<^verbatim>\<open>try: m  except Exception as e: h e\<close>: \<open>SystemExit\<close> passes through.\<close>

definition try_except :: "'a io \<Rightarrow> (exn \<Rightarrow> 'a io) \<Rightarrow> 'a io" where
  "try_except m h w =
     (case m w of
        (Inl e, w') \<Rightarrow> (if is_Exception e then h e w' else (Inl e, w'))
      | (Inr x, w') \<Rightarrow> (Inr x, w'))"

text \<open>
  \<^verbatim>\<open>try: m  finally: c\<close>: \<open>c\<close> runs on every exit of \<open>m\<close>; an exception of \<open>c\<close> replaces
  the outcome of \<open>m\<close>.
\<close>

definition try_finally :: "'a io \<Rightarrow> unit io \<Rightarrow> 'a io" where
  "try_finally m c w =
     (case m w of (r, w') \<Rightarrow>
        (case c w' of (Inl e, w'') \<Rightarrow> (Inl e, w'') | (Inr _, w'') \<Rightarrow> (r, w'')))"

subsection \<open>Decimal numerals, as \<^verbatim>\<open>str\<close> prints them\<close>

definition digit_char :: "nat \<Rightarrow> char" where
  "digit_char d = char_of (48 + d)"

function str_nat :: "nat \<Rightarrow> string" where
  "str_nat n = (if n < 10 then [digit_char n] else str_nat (n div 10) @ [digit_char (n mod 10)])"
  by pat_completeness auto
termination
  by (relation "measure id") auto

definition str_int :: "int \<Rightarrow> string" where
  "str_int i = (if i < 0 then CHR ''-'' # str_nat (nat (- i)) else str_nat (nat i))"

subsection \<open>Strings\<close>

text \<open>\<^verbatim>\<open>sub in s\<close> on strings: \<open>sub\<close> occurs in \<open>s\<close> as a contiguous block.\<close>

fun str_contains :: "string \<Rightarrow> string \<Rightarrow> bool" where
  "str_contains sub [] = (sub = [])"
| "str_contains sub (x # xs) = (prefix sub (x # xs) \<or> str_contains sub xs)"

text \<open>
  \<^verbatim>\<open>s.replace(old, new)\<close>: every occurrence of \<open>old\<close>, found from the left and not
  overlapping an earlier one, becomes \<open>new\<close>; an empty \<open>old\<close> matches before every
  character and at the end.
\<close>

fun replace_from :: "string \<Rightarrow> string \<Rightarrow> string \<Rightarrow> string" where
  "replace_from old new [] = []"
| "replace_from old new (x # xs) =
     (if old \<noteq> [] \<and> prefix old (x # xs)
      then new @ replace_from old new (drop (length old) (x # xs))
      else x # replace_from old new xs)"

definition str_replace :: "string \<Rightarrow> string \<Rightarrow> string \<Rightarrow> string" where
  "str_replace s old new =
     (if old = [] then new @ concat (map (\<lambda>x. x # new) s) else replace_from old new s)"

text \<open>\<^verbatim>\<open>s.split(sep)\<close> for a separator of one character.\<close>

fun split_on :: "char \<Rightarrow> string \<Rightarrow> string list" where
  "split_on sep [] = [[]]"
| "split_on sep (x # xs) =
     (if x = sep then [] # split_on sep xs
      else (case split_on sep xs of [] \<Rightarrow> [[x]] | l # ls \<Rightarrow> (x # l) # ls))"

definition is_space :: "char \<Rightarrow> bool" where
  "is_space x = (x \<in> set [CHR '' '', CHR 0x09, CHR 0x0A, CHR 0x0B, CHR 0x0C, CHR 0x0D])"

text \<open>\<^verbatim>\<open>s.strip()\<close>.\<close>

definition strip :: "string \<Rightarrow> string" where
  "strip s = rev (dropWhile is_space (rev (dropWhile is_space s)))"

subsection \<open>Logging and the fatal exit\<close>

text \<open>
  \<^verbatim>\<open>logging.log(level, message)\<close>: the model records every call, in order. (The script
  sets the root logger to \<open>INFO\<close>, so the \<open>DEBUG\<close> records are not printed.)
\<close>

definition logging :: "level \<Rightarrow> string \<Rightarrow> unit io" where
  "logging lv msg w = (Inr (), w\<lparr>log := log w @ [(lv, msg)]\<rparr>)"

fun str_exn :: "exn \<Rightarrow> string" where
  "str_exn (SystemExit n) = str_int n"
| "str_exn (CalledProcessError cmd rc err) =
     ''Command '' @ concat (map (\<lambda>a. a @ '' '') cmd) @ ''returned non-zero exit status '' @ str_int rc @ ''.''"
| "str_exn (PermissionError m) = m"
| "str_exn (FileExistsError m) = m"
| "str_exn (ShutilError es) = concat (map (\<lambda>(s, d, m). m @ ''; '') es)"
| "str_exn (Exception m) = m"

text \<open>
  \<^verbatim>\<open>fail(msg)\<close> logs the message at \<open>ERROR\<close> and calls \<^verbatim>\<open>sys.exit(1)\<close>;
  \<^verbatim>\<open>fail(msg, exception)\<close> logs the message with the exception and the traceback first.
\<close>

definition fail :: "string \<Rightarrow> 'a io" where
  "fail msg = seq (logging ERROR msg) (raise (SystemExit 1))"

definition fail_exc :: "string \<Rightarrow> exn \<Rightarrow> 'a io" where
  "fail_exc msg e w =
     seq (logging ERROR (msg @ ''. Exception: '' @ str_exn e @ ''. Traceback: '' @ format_exc w))
         (raise (SystemExit 1)) w"

section \<open>The operating system\<close>

subsection \<open>Files, directories and mounts\<close>

definition isfile :: "world \<Rightarrow> path \<Rightarrow> bool" where
  "isfile w p = (map_of (files w) p \<noteq> None)"

definition is_mounted_at :: "world \<Rightarrow> path \<Rightarrow> bool" where
  "is_mounted_at w p = (map_of (mounts w) p \<noteq> None)"

definition path_exists :: "world \<Rightarrow> path \<Rightarrow> bool" where
  "path_exists w p = (isfile w p \<or> p \<in> set (dirs w))"

definition write_file :: "path \<Rightarrow> string \<Rightarrow> (path \<times> string) list \<Rightarrow> (path \<times> string) list" where
  "write_file p c fs = (p, c) # filter (\<lambda>e. fst e \<noteq> p) fs"

text \<open>
  The files seen below a directory, by relative path: the image's tree where an image is
  mounted on it, else the regular files whose path starts with the directory.
\<close>

definition visible_tree :: "world \<Rightarrow> path \<Rightarrow> (path \<times> string) list" where
  "visible_tree w d =
     (case map_of (mounts w) d of
        Some img \<Rightarrow> image_tree w img
      | None \<Rightarrow> map (\<lambda>e. (drop (length d + 1) (fst e), snd e))
                  (filter (\<lambda>e. prefix (d @ ''/'') (fst e)) (files w)))"

text \<open>\<^verbatim>\<open>any(p.iterdir())\<close>: whether the directory has an entry; listing may be refused.\<close>

definition any_iterdir :: "path \<Rightarrow> bool io" where
  "any_iterdir p w =
     (if unreadable w p then (Inl (PermissionError (''Permission denied: '' @ p)), w)
      else if \<not> (p \<in> set (dirs w) \<or> is_mounted_at w p)
      then (Inl (Exception (''No such file or directory: '' @ p)), w)
      else (Inr (visible_tree w p \<noteq> []), w))"

definition rmtree :: "path \<Rightarrow> unit io" where
  "rmtree d w = (Inr (), w\<lparr>dirs := filter (\<lambda>q. q \<noteq> d) (dirs w),
                            files := filter (\<lambda>e. \<not> prefix (d @ ''/'') (fst e)) (files w)\<rparr>)"

definition makedirs :: "path \<Rightarrow> unit io" where
  "makedirs d w = (Inr (), if d \<in> set (dirs w) then w else w\<lparr>dirs := d # dirs w\<rparr>)"

text \<open>
  \<^verbatim>\<open>shutil.copytree(src, dest, dirs_exist_ok=True)\<close>: the host decides whether it raises;
  when it does not, every file seen below \<open>src\<close> is written below \<open>dest\<close>.
\<close>

definition copytree :: "path \<Rightarrow> path \<Rightarrow> unit io" where
  "copytree src dest w =
     (case copytree_error w src dest of
        Some e \<Rightarrow> (Inl e, w)
      | None \<Rightarrow> (Inr (), w\<lparr>dirs := (if dest \<in> set (dirs w) then dirs w else dest # dirs w),
                             files := foldr (\<lambda>e. write_file (dest @ ''/'' @ fst e) (snd e))
                                        (visible_tree w src) (files w)\<rparr>))"

text \<open>\<^verbatim>\<open>TemporaryDirectory()\<close>: a new directory, named by the host.\<close>

definition TemporaryDirectory :: "path io" where
  "TemporaryDirectory w =
     (let d = mkdtemp w (tmp_count w)
      in (Inr d, w\<lparr>tmp_count := Suc (tmp_count w), dirs := d # dirs w\<rparr>))"

subsection \<open>External commands\<close>

fun unmount_top :: "path \<Rightarrow> (path \<times> path) list \<Rightarrow> (path \<times> path) list" where
  "unmount_top p [] = []"
| "unmount_top p (m # ms) = (if fst m = p then ms else m # unmount_top p ms)"

text \<open>
  What a command that exited with status 0 did to the file system, for the tools whose
  effect the script later looks at: \<^verbatim>\<open>mount -o loop\<close> and \<^verbatim>\<open>wimmountrw\<close> mount an image,
  \<^verbatim>\<open>umount\<close> and \<^verbatim>\<open>wimunmount\<close> remove the mount, \<^verbatim>\<open>cp\<close> copies a file, \<^verbatim>\<open>tee\<close> writes
  its input to a file and \<^verbatim>\<open>tee -a\<close> appends it, the download script leaves the image the
  host says it does. A command that exited with another status changed nothing.
\<close>

definition effect :: "string list \<Rightarrow> string \<Rightarrow> world \<Rightarrow> world" where
  "effect cmd input w =
     (if length cmd = 6 \<and> take 4 cmd = [''sudo'', ''mount'', ''-o'', ''loop'']
      then w\<lparr>mounts := (cmd ! 5, cmd ! 4) # mounts w\<rparr>
      else if length cmd = 3 \<and> take 2 cmd = [''sudo'', ''umount'']
      then w\<lparr>mounts := unmount_top (cmd ! 2) (mounts w)\<rparr>
      else if length cmd = 5 \<and> take 2 cmd = [''sudo'', ''wimmountrw'']
      then w\<lparr>mounts := (cmd ! 4, cmd ! 2) # mounts w\<rparr>
      else if length cmd = 4 \<and> take 3 cmd = [''sudo'', ''wimunmount'', ''--commit'']
      then w\<lparr>mounts := unmount_top (cmd ! 3) (mounts w)\<rparr>
      else if length cmd = 4 \<and> take 2 cmd = [''sudo'', ''cp'']
      then (case map_of (files w) (cmd ! 2) of
              Some c \<Rightarrow> w\<lparr>files := write_file (cmd ! 3) c (files w)\<rparr>
            | None \<Rightarrow> w)
      else if length cmd = 3 \<and> take 2 cmd = [''sudo'', ''tee'']
      then w\<lparr>files := write_file (cmd ! 2) input (files w)\<rparr>
      else if length cmd = 4 \<and> take 3 cmd = [''sudo'', ''tee'', ''-a'']
      then w\<lparr>files := write_file (cmd ! 3)
                 ((case map_of (files w) (cmd ! 3) of Some c \<Rightarrow> c | None \<Rightarrow> []) @ input) (files w)\<rparr>
      else if cmd = [''./Mido.sh'', ''win10x64'']
      then (case mido_output w of
              Some c \<Rightarrow> w\<lparr>files := write_file ''win10x64.iso'' c (files w)\<rparr>
            | None \<Rightarrow> w)
      else w)"

text \<open>The standard output of \<^verbatim>\<open>sudo cat file\<close> that exited with status 0 is the file.\<close>

definition tool_stdout :: "string list \<Rightarrow> world \<Rightarrow> string \<Rightarrow> string" where
  "tool_stdout cmd w out =
     (if length cmd = 3 \<and> take 2 cmd = [''sudo'', ''cat'']
      then (case map_of (files w) (cmd ! 2) of Some c \<Rightarrow> c | None \<Rightarrow> out)
      else out)"

text \<open>
  Starting a command: it is appended to the trace, the host gives its outcome, and a
  command that exited with status 0 has its effect.
\<close>

definition spawn_process :: "string list \<Rightarrow> string \<Rightarrow> spawn io" where
  "spawn_process cmd input w =
     (let w1 = w\<lparr>trace := trace w @ [cmd]\<rparr>
      in case tool w (length (trace w)) cmd of
           SpawnError m \<Rightarrow> (Inr (SpawnError m), w1)
         | Exited rc out err \<Rightarrow>
             (if rc = 0 then (Inr (Exited 0 (tool_stdout cmd w out) err), effect cmd input w1)
              else (Inr (Exited rc out err), w1)))"

text \<open>
  \<^verbatim>\<open>subprocess.run(cmd, input=..., check=...)\<close> returns the return code, standard output and
  standard error; with \<^verbatim>\<open>check=True\<close> a return code other than 0 raises
  \<^verbatim>\<open>CalledProcessError\<close>. A command that cannot be started raises an \<^verbatim>\<open>OSError\<close>.
\<close>

definition subprocess_run :: "string list \<Rightarrow> string \<Rightarrow> bool \<Rightarrow> (int \<times> string \<times> string) io" where
  "subprocess_run cmd input check =
     bind (spawn_process cmd input) (\<lambda>r.
       case r of
         SpawnError m \<Rightarrow> raise (Exception m)
       | Exited rc out err \<Rightarrow>
           (if check \<and> rc \<noteq> 0 then raise (CalledProcessError cmd rc err)
            else ret (rc, out, err)))"

text \<open>\<^verbatim>\<open>subprocess.call(cmd)\<close> returns the return code.\<close>

definition subprocess_call :: "string list \<Rightarrow> int io" where
  "subprocess_call cmd = bind (subprocess_run cmd [] False) (\<lambda>r. ret (fst r))"

text \<open>\<^verbatim>\<open>subprocess.check_output(cmd)\<close> returns the standard output, and checks.\<close>

definition check_output :: "string list \<Rightarrow> string io" where
  "check_output cmd = bind (subprocess_run cmd [] True) (\<lambda>r. ret (fst (snd r)))"

section \<open>The script\<close>

subsection \<open>Helpers\<close>

text \<open>
  \<^verbatim>\<open>run_subprocess\<close>: the command is run with \<^verbatim>\<open>check=True\<close>; \<^verbatim>\<open>CalledProcessError\<close> is
  caught, its standard error logged, and \<^verbatim>\<open>Exception(fail_msg)\<close> raised. Any other
  exception passes through.
\<close>

definition run_subprocess :: "string list \<Rightarrow> string \<Rightarrow> unit io" where
  "run_subprocess cmd fail_msg w =
     (case subprocess_run cmd [] True w of
        (Inl (CalledProcessError c rc err), w') \<Rightarrow>
          seq (logging ERROR (''Command failed. Error: '' @ err)) (raise (Exception fail_msg)) w'
      | (Inl e, w') \<Rightarrow> (Inl e, w')
      | (Inr _, w') \<Rightarrow> (Inr (), w'))"

text \<open>\<^verbatim>\<open>is_mounted\<close> is \<^verbatim>\<open>os.path.ismount\<close>.\<close>

definition is_mounted :: "path \<Rightarrow> bool io" where
  "is_mounted p w = (Inr (is_mounted_at w p), w)"

text \<open>
  \<^verbatim>\<open>unmount\<close>. The two \<^verbatim>\<open>except\<close> clauses are the two cases of the handler; \<^verbatim>\<open>fail\<close>
  inside the \<^verbatim>\<open>try\<close> raises \<open>SystemExit\<close>, which neither clause catches.
\<close>

definition unmount :: "path \<Rightarrow> unit io" where
  "unmount mount_point =
     (let cmd = [''sudo'', ''umount'', mount_point]
      in bind (is_mounted mount_point) (\<lambda>m.
           if \<not> m then logging WARNING (mount_point @ '' is not mounted.'')
           else try_except
                  (seq (run_subprocess cmd (''Failed to unmount '' @ mount_point))
                    (bind (any_iterdir mount_point) (\<lambda>nonempty.
                       seq (if nonempty
                            then fail (''Failed to unmount '' @ mount_point @ ''. The directory is not empty.'')
                            else ret ())
                           (logging INFO (''Successfully unmounted '' @ mount_point @ ''.'')))))
                  (\<lambda>e. case e of
                          PermissionError _ \<Rightarrow>
                            seq (logging ERROR (''Permission error occurred while unmounting '' @ mount_point))
                                (fail (''Failed to unmount '' @ mount_point @ '' due to permission error.''))
                        | _ \<Rightarrow> fail_exc (''Failed to unmount '' @ mount_point) e)))"

text \<open>A \<^verbatim>\<open>for\<close> loop over a list: the body runs on each element; an exception ends it.\<close>

fun for_each :: "('a \<Rightarrow> unit io) \<Rightarrow> 'a list \<Rightarrow> unit io" where
  "for_each f [] = ret ()"
| "for_each f (x # xs) = seq (f x) (for_each f xs)"

subsection \<open>The console\<close>

text \<open>
  \<^verbatim>\<open>print\<close> appends a line to the standard output. \<^verbatim>\<open>input(prompt)\<close> prints the prompt and
  takes the next line of the standard input; at its end it raises \<^verbatim>\<open>EOFError\<close>.
\<close>

definition print :: "string \<Rightarrow> unit io" where
  "print s w = (Inr (), w\<lparr>stdout := stdout w @ [s]\<rparr>)"

definition input :: "string \<Rightarrow> string io" where
  "input prompt w =
     (case stdin w of
        [] \<Rightarrow> (Inl (Exception ''EOF when reading a line''), w\<lparr>stdout := stdout w @ [prompt]\<rparr>)
      | l # ls \<Rightarrow> (Inr l, w\<lparr>stdin := ls, stdout := stdout w @ [prompt]\<rparr>))"

subsection \<open>Temporary directories\<close>

definition init_temp_dirs :: "unit io" where
  "init_temp_dirs =
     bind TemporaryDirectory (\<lambda>d1. seq (\<lambda>w. (Inr (), w\<lparr>temp_dir := d1\<rparr>))
    (bind TemporaryDirectory (\<lambda>d2. seq (\<lambda>w. (Inr (), w\<lparr>wimtemp_dir := d2\<rparr>))
    (bind TemporaryDirectory (\<lambda>d3. seq (\<lambda>w. (Inr (), w\<lparr>drivers_dir := d3\<rparr>))
    (bind TemporaryDirectory (\<lambda>d4. seq (\<lambda>w. (Inr (), w\<lparr>windows_dir := d4\<rparr>))
    (bind TemporaryDirectory (\<lambda>d5. seq (\<lambda>w. (Inr (), w\<lparr>virtio_mount_dir := d5\<rparr>))
    (bind TemporaryDirectory (\<lambda>d6. (\<lambda>w. (Inr (), w\<lparr>windows_mount_dir := d6\<rparr>)))))))))))))"

text \<open>
  \<^verbatim>\<open>cleanup_temp_dirs\<close>: five of the six directories (not the WIM one) are unmounted when
  mounted and removed; then six new ones are made.
\<close>

definition cleanup_temp_dirs :: "unit io" where
  "cleanup_temp_dirs w =
     seq (for_each (\<lambda>d. seq (bind (is_mounted d) (\<lambda>m. if m then unmount d else ret ()))
                             (rmtree d))
            [temp_dir w, drivers_dir w, windows_dir w, virtio_mount_dir w, windows_mount_dir w])
         init_temp_dirs w"

subsection \<open>Copying, mounting, downloading\<close>

text \<open>
  \<^verbatim>\<open>copy_tree\<close>: \<^verbatim>\<open>FileExistsError\<close> and \<^verbatim>\<open>PermissionError\<close> are logged; for any other
  \<^verbatim>\<open>Exception\<close> the handler iterates over \<^verbatim>\<open>e.args[0]\<close>, which is the list of
  (source, destination, message) of a \<^verbatim>\<open>shutil.Error\<close>; for another exception class that
  iteration itself raises (a number is not iterable, a character does not unpack into
  three names). The bare \<^verbatim>\<open>except:\<close> clause would read the unbound name \<^verbatim>\<open>e\<close>.
\<close>

definition copy_tree :: "path \<Rightarrow> path \<Rightarrow> unit io" where
  "copy_tree src dest w =
     (case copytree src dest w of
        (Inr _, w') \<Rightarrow> (Inr (), w')
      | (Inl (FileExistsError m), w') \<Rightarrow> logging ERROR (dest @ '' already exists.'') w'
      | (Inl (PermissionError m), w') \<Rightarrow>
          logging ERROR (''Do not have the necessary permissions to copy to '' @ dest @ ''.'') w'
      | (Inl (ShutilError es), w') \<Rightarrow>
          for_each (\<lambda>(s, d, msg). logging ERROR (''Error occurred when copying '' @ s @ '' to '' @ d @ '': '' @ msg))
            es w'
      | (Inl (SystemExit n), w') \<Rightarrow> (Inl (Exception ''name e is not defined''), w')
      | (Inl e, w') \<Rightarrow> (Inl (Exception ''cannot unpack non-iterable object''), w'))"

definition str_bool :: "bool \<Rightarrow> string" where
  "str_bool b = (if b then ''True'' else ''False'')"

text \<open>
  \<^verbatim>\<open>mount_iso\<close>. Both arguments are converted with \<^verbatim>\<open>Path(...)\<close> first, so the two
  \<^verbatim>\<open>isinstance\<close> tests that follow cannot fail and are left out; paths are taken as
  already normalised. A missing image or mount point is logged and the method returns.
\<close>

definition mount_iso :: "path \<Rightarrow> path \<Rightarrow> unit io" where
  "mount_iso iso_path mount_point w =
     (if \<not> path_exists w iso_path
      then logging ERROR (''ISO path '' @ iso_path @ '' does not exist.'') w
      else if \<not> path_exists w mount_point
      then logging ERROR (''Mount point '' @ mount_point @ '' does not exist.'') w
      else
        (let cmd = [''sudo'', ''mount'', ''-o'', ''loop'', iso_path, mount_point]
         in try_except
              (seq (run_subprocess cmd (''Failed to mount '' @ iso_path @ '' to '' @ mount_point))
                (bind (any_iterdir mount_point) (\<lambda>nonempty.
                   seq (if \<not> nonempty
                        then fail (''Failed to mount '' @ iso_path @ '' to '' @ mount_point
                                     @ ''. The directory is empty.'')
                        else ret ())
                       (logging INFO (''Successfully mounted '' @ iso_path @ '' to '' @ mount_point @ ''.'')))))
              (\<lambda>e w'. seq (logging ERROR (''Debug Info: ISO Path exists: '' @ str_bool (path_exists w' iso_path)
                                            @ '', Mount Point exists: '' @ str_bool (path_exists w' mount_point)))
                           (fail_exc (''Failed to mount '' @ iso_path @ '' to '' @ mount_point) e) w')) w)"

text \<open>
  \<^verbatim>\<open>mount_wim\<close>: a missing WIM file is logged and the method returns; a return code other
  than 0 of \<^verbatim>\<open>wimmountrw\<close> is caught and logged, and the method returns.
\<close>

definition mount_wim :: "path \<Rightarrow> int \<Rightarrow> unit io" where
  "mount_wim wim_path index w =
     seq (logging INFO (''Mounting WIM image from '' @ wim_path @ '' at index '' @ str_int index
                          @ '' to '' @ wimtemp_dir w))
       (\<lambda>w1. if \<not> path_exists w1 wim_path
             then logging ERROR (''WIM file '' @ wim_path @ '' does not exist.'') w1
             else
               (let cmd = [''sudo'', ''wimmountrw'', wim_path, str_int index, wimtemp_dir w1]
                in case subprocess_run cmd [] True w1 of
                     (Inr _, w2) \<Rightarrow> logging INFO ''Successfully mounted WIM image.'' w2
                   | (Inl (CalledProcessError c rc err), w2) \<Rightarrow>
                       logging ERROR (''Failed to mount WIM image. Error: '' @ strip err) w2
                   | (Inl e, w2) \<Rightarrow> (Inl e, w2))) w"

definition unmount_wim :: "unit io" where
  "unmount_wim w =
     run_subprocess [''sudo'', ''wimunmount'', ''--commit'', wimtemp_dir w]
       ''Failed to unmount WIM image.'' w"

text \<open>\<^verbatim>\<open>urlretrieve(url, dest)\<close>: what the URL serves is written to \<open>dest\<close>, or it raises.\<close>

definition urlretrieve :: "string \<Rightarrow> path \<Rightarrow> unit io" where
  "urlretrieve url dest w =
     (case web w url of
        None \<Rightarrow> (Inl (Exception (''URL error: '' @ url)), w)
      | Some c \<Rightarrow> (Inr (), w\<lparr>files := write_file dest c (files w)\<rparr>))"

definition download_file :: "string \<Rightarrow> path \<Rightarrow> unit io" where
  "download_file url dest =
     (let dest_path = dest
      in try_except
           (seq (logging DEBUG (''Debug: Downloading file from '' @ url @ '' to '' @ dest_path @ ''.''))
           (seq (urlretrieve url dest_path)
           (seq (\<lambda>w. if \<not> path_exists w dest_path
                     then fail (''Download failed, file '' @ dest_path @ '' does not exist.'') w
                     else ret () w)
                (logging INFO (''Successfully downloaded from '' @ url @ '' to '' @ dest_path @ ''.'')))))
           (\<lambda>e. seq (logging ERROR (''Error in download_file: '' @ str_exn e))
                    (fail_exc (''Failed to download '' @ dest_path @ ''. Error: '' @ str_exn e) e)))"

definition get_redirected_url :: "string \<Rightarrow> string io" where
  "get_redirected_url url =
     try_except
       (seq (logging DEBUG (''Debug: Getting redirected URL for '' @ url @ ''.''))
            (bind (check_output [''curl'', ''-sIL'', ''-o'', ''/dev/null'', ''-w'', ''%{url_effective}'', url])
                  (\<lambda>out. ret (strip out))))
       (\<lambda>e. seq (logging ERROR (''Error in get_redirected_url: '' @ str_exn e))
                (fail_exc (''Failed to get redirected URL. Error: '' @ str_exn e) e))"

text \<open>\<^verbatim>\<open>os.path.basename\<close>: what follows the last slash.\<close>

definition basename :: "path \<Rightarrow> path" where
  "basename p = rev (takeWhile (\<lambda>x. x \<noteq> CHR ''/'') (rev p))"

subsection \<open>Building the composite ISO\<close>

definition prepare_directories_for_custom_iso :: "unit io" where
  "prepare_directories_for_custom_iso w =
     for_each (\<lambda>dir_path. seq (\<lambda>w'. if path_exists w' dir_path then rmtree dir_path w' else ret () w')
                               (makedirs dir_path))
       [temp_dir w, drivers_dir w, windows_dir w, virtio_mount_dir w, windows_mount_dir w,
        wimtemp_dir w] w"

definition copy_virtio_drivers :: "path \<Rightarrow> unit io" where
  "copy_virtio_drivers virtio_iso =
     seq (logging INFO ''Copying over VirtIO drivers.'')
       (try_except
          (seq (\<lambda>w. mount_iso virtio_iso (virtio_mount_dir w) w)
          (seq (\<lambda>w. copy_tree (virtio_mount_dir w) (drivers_dir w) w)
               (\<lambda>w. unmount (virtio_mount_dir w) w)))
          (\<lambda>e. seq (logging ERROR (''Error in copy_virtio_drivers: '' @ str_exn e))
                   (fail_exc (''Failed to copy VirtIO drivers. Error: '' @ str_exn e) e)))"

definition copy_windows_files :: "path \<Rightarrow> unit io" where
  "copy_windows_files win_iso =
     seq (logging INFO ''Copying over Windows files.'')
       (try_except
          (seq (\<lambda>w. mount_iso win_iso (windows_mount_dir w) w)
          (seq (\<lambda>w. copy_tree (windows_mount_dir w) (windows_dir w) w)
               (\<lambda>w. unmount (windows_mount_dir w) w)))
          (\<lambda>e. seq (logging ERROR (''Error in copy_windows_files: '' @ str_exn e))
                   (fail_exc (''Failed to copy Windows files. Error: '' @ str_exn e) e)))"

definition add_drivers_to_windows_boot_images :: "unit io" where
  "add_drivers_to_windows_boot_images =
     seq (logging INFO ''Adding drivers to Windows boot images.'')
       (for_each (\<lambda>image_index.
            seq (\<lambda>w. mount_wim (windows_dir w @ ''/sources/boot.wim'') image_index w)
           (seq (\<lambda>w. copy_tree (drivers_dir w) (wimtemp_dir w) w)
                unmount_wim))
          [1, 2])"

definition generate_custom_iso :: "string io" where
  "generate_custom_iso =
     seq (logging INFO ''Generating custom ISO.'')
    (seq (\<lambda>w. run_subprocess
            [''sudo'', ''mkisofs'', ''-allow-limited-size'', ''-o'', ''CustomWin10.iso'', ''-b'',
             ''boot/etfsboot.com'', ''-no-emul-boot'', ''-boot-load-seg'', ''0x07C0'',
             ''-boot-load-size'', ''8'', ''-iso-level'', ''2'', ''-J'', ''-l'', ''-D'', ''-N'',
             ''-joliet-long'', ''-relaxed-filenames'', ''-V'', ''Custom Win10'', ''-allow-lowercase'',
             ''-hide'', ''boot.catalog'', windows_dir w]
            ''Failed to create custom ISO.'' w)
    (seq (logging INFO ''Custom ISO generated successfully.'')
         (ret ''CustomWin10.iso'')))"

text \<open>
  The \<^verbatim>\<open>try\<close> block of \<^verbatim>\<open>create_custom_iso\<close>, with the local list \<^verbatim>\<open>mounted_isos\<close> as it
  stands when the block is left: a mount point is appended after the copy step that
  mounted it has returned.
\<close>

definition create_custom_iso_try :: "path \<Rightarrow> path \<Rightarrow> world \<Rightarrow> (exn + string) \<times> path list \<times> world" where
  "create_custom_iso_try win_iso virtio_iso w =
     (case prepare_directories_for_custom_iso w of
        (Inl e, w1) \<Rightarrow> (Inl e, [], w1)
      | (Inr _, w1) \<Rightarrow>
     (case copy_virtio_drivers virtio_iso w1 of
        (Inl e, w2) \<Rightarrow> (Inl e, [], w2)
      | (Inr _, w2) \<Rightarrow>
     (let mounted_isos = [virtio_mount_dir w2] in
     (case copy_windows_files win_iso w2 of
        (Inl e, w3) \<Rightarrow> (Inl e, mounted_isos, w3)
      | (Inr _, w3) \<Rightarrow>
     (let mounted_isos = mounted_isos @ [windows_mount_dir w3] in
     (case add_drivers_to_windows_boot_images w3 of
        (Inl e, w4) \<Rightarrow> (Inl e, mounted_isos, w4)
      | (Inr _, w4) \<Rightarrow>
     (case generate_custom_iso w4 of
        (r, w5) \<Rightarrow> (r, mounted_isos, w5))))))))"

text \<open>
  \<^verbatim>\<open>create_custom_iso\<close>: the \<^verbatim>\<open>except Exception\<close> clause is fatal, and the \<^verbatim>\<open>finally\<close>
  clause calls \<^verbatim>\<open>unmount\<close> on the recorded mount points, in the order of the list.
\<close>

definition create_custom_iso :: "path \<Rightarrow> path \<Rightarrow> string io" where
  "create_custom_iso win_iso virtio_iso w =
     (case create_custom_iso_try win_iso virtio_iso w of
        (r, mounted_isos, w1) \<Rightarrow>
          try_finally
            (try_except (\<lambda>w'. (r, w'))
               (\<lambda>e. fail_exc (''Failed to create custom ISO. Error: '' @ str_exn e) e))
            (for_each unmount mounted_isos) w1)"

subsection \<open>The three ISO modes\<close>

definition VIRTIO_ISO_URL :: string where
  "VIRTIO_ISO_URL =
     ''https://fedorapeople.org/groups/virt/virtio-win/direct-downloads/latest-virtio/virtio-win.iso''"

definition handle_user_provided_iso :: "path \<Rightarrow> string io" where
  "handle_user_provided_iso provided_win_iso = ret provided_win_iso"

definition create_iso_with_virtio_from_user_iso :: "path \<Rightarrow> string io" where
  "create_iso_with_virtio_from_user_iso provided_win_iso =
     seq (logging INFO ''Create custom ISO with VirtIO drivers.'')
    (seq cleanup_temp_dirs
      (try_except
         (bind (get_redirected_url VIRTIO_ISO_URL) (\<lambda>actual_virtio_url.
            (\<lambda>w. let virtio_iso = basename (urlsplit_path w actual_virtio_url)
                 in seq (download_file actual_virtio_url virtio_iso)
                        (create_custom_iso provided_win_iso virtio_iso) w)))
         (\<lambda>e. fail_exc (''Failed to create custom ISO. Error: '' @ str_exn e) e)))"

text \<open>\<^verbatim>\<open>os.chmod\<close> on a missing file raises.\<close>

definition os_chmod :: "path \<Rightarrow> unit io" where
  "os_chmod p w =
     (if path_exists w p then (Inr (), w)
      else (Inl (Exception (''No such file or directory: '' @ p)), w))"

definition handle_downloaded_iso :: "string io" where
  "handle_downloaded_iso =
     seq (logging INFO ''Starting to handle downloaded ISO.'')
    (seq (download_file ''https://raw.githubusercontent.com/ElliotKillick/Mido/main/Mido.sh'' ''Mido.sh'')
    (seq (logging INFO ''Custom ISO created successfully.'')
    (seq (os_chmod ''Mido.sh'')
    (bind (subprocess_call [''./Mido.sh'', ''win10x64'']) (\<lambda>rc.
     seq (if rc \<noteq> 0 then fail ''Failed to download Windows 10 ISO.'' else ret ())
    (let downloaded_win_iso = ''win10x64.iso''
     in seq (\<lambda>w. if \<not> isfile w downloaded_win_iso
                 then fail (downloaded_win_iso @ '' not found. Something went wrong.'') w
                 else ret () w)
       (bind (get_redirected_url VIRTIO_ISO_URL) (\<lambda>actual_virtio_url.
          (\<lambda>w. let virtio_iso = basename (urlsplit_path w actual_virtio_url)
               in seq (download_file actual_virtio_url virtio_iso)
                 (bind (create_custom_iso downloaded_win_iso virtio_iso) (\<lambda>custom_iso_path.
                    seq (print ''Custom ISO Created'') (ret custom_iso_path))) w)))))))))"

subsection \<open>Privileged reads and writes\<close>

text \<open>
  \<^verbatim>\<open>sudo_tee_write\<close> and \<^verbatim>\<open>sudo_cat_read\<close>. In both handlers \<^verbatim>\<open>fail\<close> exits, so the
  \<^verbatim>\<open>raise\<close> after it is never reached; it is kept as the source has it.
\<close>

definition sudo_tee_write :: "path \<Rightarrow> string \<Rightarrow> unit io" where
  "sudo_tee_write file_path content =
     try_except
       (bind (subprocess_run [''sudo'', ''tee'', file_path] content True) (\<lambda>process.
          if fst process \<noteq> 0
          then raise (Exception (''Failed to write to '' @ file_path @ '' using sudo tee''))
          else ret ()))
       (\<lambda>e. seq (fail (''Failed to modify '' @ file_path @ ''. Error: '' @ str_exn e) :: unit io)
                (raise (Exception (''Exiting due to failure in modifying '' @ file_path))))"

definition sudo_cat_read :: "path \<Rightarrow> string io" where
  "sudo_cat_read file_path =
     try_except
       (bind (subprocess_run [''sudo'', ''cat'', file_path] [] True) (\<lambda>process.
          ret (fst (snd process))))
       (\<lambda>e. seq (fail (''Failed to read '' @ file_path @ ''. Error: '' @ str_exn e) :: unit io)
                (raise (Exception (''Exiting due to failure in reading '' @ file_path))))"

subsection \<open>Configuration files\<close>

text \<open>
  \<^verbatim>\<open>backup_file\<close>: \<^verbatim>\<open>sudo cp\<close> is run without \<^verbatim>\<open>check\<close>, so its return code is not
  looked at; only an exception (the command could not be started) reaches the handler.
\<close>

definition backup_file :: "path \<Rightarrow> unit io" where
  "backup_file file_path =
     try_except
       (\<lambda>w. if path_exists w file_path
            then (let backup_path = file_path @ ''.backup''
                  in seq (subprocess_run [''sudo'', ''cp'', file_path, backup_path] [] False)
                         (logging INFO (''Backup of '' @ file_path @ '' created.''))) w
            else logging WARNING (''File '' @ file_path @ '' does not exist, skipping backup.'') w)
       (\<lambda>e. fail (''Failed to create backup of '' @ file_path @ ''. Error: '' @ str_exn e))"

text \<open>\<^verbatim>\<open>modify_config\<close>: the patch step.\<close>

definition modify_config :: "path \<Rightarrow> string \<Rightarrow> string \<Rightarrow> unit io" where
  "modify_config file_path search_string replace_string =
     try_except
       (bind (sudo_cat_read file_path) (\<lambda>filedata.
          if str_contains search_string filedata
          then seq (sudo_tee_write file_path (str_replace filedata search_string replace_string))
                   (logging INFO (''Modified '' @ file_path @ ''.''))
          else logging WARNING (''Search string '' @ [CHR 0x27] @ search_string @ [CHR 0x27]
                                  @ '' not found in '' @ file_path)))
       (\<lambda>e. seq (fail (''Failed to modify '' @ file_path @ ''. Error: '' @ str_exn e) :: unit io)
                (raise (Exception (''Exiting due to failure in modifying '' @ file_path))))"

text \<open>\<^verbatim>\<open>open(p).read()\<close>, \<^verbatim>\<open>open(p, "w").write(c)\<close> and \<^verbatim>\<open>os.remove(p)\<close>, unprivileged.\<close>

definition read_file :: "path \<Rightarrow> string io" where
  "read_file p w =
     (if unreadable w p then (Inl (PermissionError (''Permission denied: '' @ p)), w)
      else case map_of (files w) p of
             None \<Rightarrow> (Inl (Exception (''No such file or directory: '' @ p)), w)
           | Some c \<Rightarrow> (Inr c, w))"

definition open_write :: "path \<Rightarrow> string \<Rightarrow> unit io" where
  "open_write p c w = (Inr (), w\<lparr>files := write_file p c (files w)\<rparr>)"

definition os_remove :: "path \<Rightarrow> unit io" where
  "os_remove p w =
     (if isfile w p then (Inr (), w\<lparr>files := filter (\<lambda>e. fst e \<noteq> p) (files w)\<rparr>)
      else (Inl (Exception (''No such file or directory: '' @ p)), w))"

definition additional_settings :: string where
  "additional_settings =
     ''log_filters=\"3:qemu 1:libvirt\"'' @ [CHR 0x0A]
     @ ''log_outputs=\"2:file:/var/log/libvirt/libvirtd.log\"'' @ [CHR 0x0A]"

text \<open>
  \<^verbatim>\<open>modify_and_backup_libvirt_config\<close>. The loop over the lines of the additional settings
  with its \<^verbatim>\<open>break\<close> computes whether every line occurs in the file.
\<close>

definition modify_and_backup_libvirt_config :: "unit io" where
  "modify_and_backup_libvirt_config =
     (let libvirt_config_path = ''/etc/libvirt/libvirtd.conf'';
          backup_path = libvirt_config_path @ ''.backup''
      in try_except
        (seq (logging INFO ''Checking if libvirt configuration file exists...'')
        (seq (\<lambda>w. if \<not> isfile w libvirt_config_path
                  then fail (libvirt_config_path @ '' not found. Exiting.'') w
                  else ret () w)
        (seq (logging INFO ''Checking if backup file already exists...'')
        (seq (\<lambda>w. if \<not> isfile w backup_path
                  then seq (logging INFO ''Backup file does not exist. Creating backup...'')
                           (backup_file libvirt_config_path) w
                  else logging INFO ''Backup file already exists. Skipping backup.'' w)
        (seq (logging INFO ''Modifying libvirt configuration...'')
        (seq (modify_config libvirt_config_path ''#unix_sock_group = \"libvirt\"''
                                                ''unix_sock_group = \"libvirt\"'')
        (seq (modify_config libvirt_config_path ''#unix_sock_rw_perms = \"0770\"''
                                                ''unix_sock_rw_perms = \"0770\"'')
        (seq (logging INFO ''Checking if additional settings already exist in libvirt configuration...'')
        (bind (read_file libvirt_config_path) (\<lambda>file_contents.
           let additional_settings_exist =
                 list_all (\<lambda>line. str_contains line file_contents)
                          (split_on (CHR 0x0A) (strip additional_settings))
           in seq (if \<not> additional_settings_exist
                   then seq (logging INFO ''Appending additional settings to libvirt configuration...'')
                       (seq (open_write ''/tmp/additional_libvirt_settings'' additional_settings)
                       (bind (read_file ''/tmp/additional_libvirt_settings'') (\<lambda>text.
                        seq (subprocess_run [''sudo'', ''tee'', ''-a'', libvirt_config_path] text True)
                            (os_remove ''/tmp/additional_libvirt_settings''))))
                   else logging INFO ''Additional settings already exist in libvirt configuration. Skipping.'')
                  (logging INFO ''Libvirt configuration successfully modified and backed up.'')))))))))))
        (\<lambda>e. seq (fail (''Failed to modify and backup libvirt configuration. Error: '' @ str_exn e) :: unit io)
                 (raise (Exception ''Exiting due to failure in modifying and backing up libvirt configuration''))))"

text \<open>\<^verbatim>\<open>modify_and_backup_qemu_config\<close>.\<close>

definition modify_and_backup_qemu_config :: "unit io" where
  "modify_and_backup_qemu_config =
     (let qemu_config_path = ''/etc/libvirt/qemu.conf'';
          backup_path = qemu_config_path @ ''.backup''
      in try_except
        (seq (logging INFO ''Checking if qemu configuration file exists...'')
        (seq (\<lambda>w. if \<not> isfile w qemu_config_path
                  then fail (qemu_config_path @ '' not found. Exiting.'') w
                  else ret () w)
        (seq (logging INFO ''Checking if backup file already exists...'')
        (seq (\<lambda>w. if \<not> isfile w backup_path
                  then seq (logging INFO ''Backup file does not exist. Creating backup...'')
                           (backup_file qemu_config_path) w
                  else logging INFO ''Backup file already exists. Skipping backup.'' w)
        (seq (logging INFO ''Modifying qemu configuration...'')
        (seq (\<lambda>w. modify_config qemu_config_path ''#user = \"root\"''
                                 (''user = \"'' @ getuser w @ ''\"'') w)
        (seq (modify_config qemu_config_path ''#group = \"root\"'' ''group = \"libvirt\"'')
             (logging INFO ''qemu configuration successfully modified and backed up.''))))))))
        (\<lambda>e. seq (fail (''Failed to modify and backup qemu configuration. Error: '' @ str_exn e) :: unit io)
                 (raise (Exception ''Exiting due to failure in modifying and backing up qemu configuration''))))"

subsection \<open>Packages and the libvirt service\<close>

definition REQUIRED_PACKAGES :: "string list" where
  "REQUIRED_PACKAGES =
     [''qemu-system-x86'', ''libvirt-clients'', ''libvirt-daemon-system'',
      ''libvirt-daemon-config-network'', ''bridge-utils'', ''virt-manager'', ''ovmf'', ''wimtools'']"

text \<open>
  \<^verbatim>\<open>all(subprocess.call(["dpkg-query", ...]) == 0 for package in packages)\<close>: the
  packages are queried in order, up to the first one whose query does not return 0.
\<close>

fun all_installed :: "string list \<Rightarrow> bool io" where
  "all_installed [] = ret True"
| "all_installed (package # packages) =
     bind (subprocess_call [''dpkg-query'', ''-W'', ''-f=${Status}'', package]) (\<lambda>rc.
       if rc = 0 then all_installed packages else ret False)"

definition install_packages :: "string list \<Rightarrow> unit io" where
  "install_packages packages =
     seq (logging INFO ''Starting package installation.'')
    (seq (logging INFO ''Checking if required packages are already installed...'')
    (bind (all_installed packages) (\<lambda>installed.
     seq (if \<not> installed
          then seq (logging INFO ''Installing required packages...'')
              (seq (run_subprocess [''sudo'', ''apt'', ''update''] ''Failed to update package list.'')
                   (run_subprocess ([''sudo'', ''apt'', ''install'', ''-y''] @ packages)
                      ''Failed to install packages.''))
          else logging INFO ''All required packages are already installed.'')
         (logging INFO ''Finished package installation.''))))"

definition add_user_to_libvirt_and_kvm_groups :: "unit io" where
  "add_user_to_libvirt_and_kvm_groups =
     try_except
       (\<lambda>w. run_subprocess [''sudo'', ''usermod'', ''-a'', ''-G'', ''kvm,libvirt'', getuser w]
              ''Failed to add the user to kvm and libvirt groups.'' w)
       (\<lambda>e. fail (''Failed to add user to kvm and libvirt groups. Error: '' @ str_exn e))"

definition manage_libvirtd_service :: "string list \<Rightarrow> unit io" where
  "manage_libvirtd_service actions =
     for_each (\<lambda>action. run_subprocess [''sudo'', ''systemctl'', action, ''libvirtd'']
                           (''Failed to '' @ action @ '' the libvirtd service.''))
       actions"

definition restart_libvirtd_service :: "unit io" where
  "restart_libvirtd_service = manage_libvirtd_service [''restart'']"

definition enable_virsh_default_network :: "unit io" where
  "enable_virsh_default_network =
     run_subprocess [''sudo'', ''virsh'', ''net-autostart'', ''default'']
       ''Failed to enable the default network for virsh.''"

definition setup_libvirt :: "unit io" where
  "setup_libvirt =
     seq (logging INFO ''Configuring libvirt.'')
    (seq add_user_to_libvirt_and_kvm_groups
    (seq modify_and_backup_libvirt_config
    (seq (manage_libvirtd_service [''enable'', ''start''])
    (seq modify_and_backup_qemu_config
    (seq restart_libvirtd_service
    (seq enable_virsh_default_network
         (logging INFO ''libvirt configured successfully.'')))))))"

section \<open>Resource allocation\<close>

text \<open>
  \<^verbatim>\<open>validate_allocation\<close>: fatal when an allocated quantity exceeds the available one.
  Python integers are unbounded: \<open>int\<close>.
\<close>

definition validate_allocation :: "int \<Rightarrow> int \<Rightarrow> int \<Rightarrow> int \<Rightarrow> int \<Rightarrow> int \<Rightarrow> unit io" where
  "validate_allocation allocated_ram allocated_cpus allocated_disk
                       available_ram_mb available_cpus available_disk_gb =
     (if allocated_ram > available_ram_mb \<or> allocated_cpus > available_cpus
         \<or> allocated_disk > available_disk_gb
      then fail ''Invalid resource allocation.''
      else ret ())"

text \<open>
  \<^verbatim>\<open>auto_allocation\<close>: floor division by two (\<^verbatim>\<open>//\<close> is \<open>div\<close> on \<open>int\<close>), three log
  records, all inside a \<^verbatim>\<open>try\<close> whose handler is fatal.
\<close>

definition auto_allocation :: "int \<Rightarrow> int \<Rightarrow> int \<Rightarrow> (int \<times> int \<times> int) io" where
  "auto_allocation available_ram_mb available_cpus available_disk_gb =
     try_except
       (seq (logging INFO ''Automatically allocating resources...'')
         (let allocated_ram = available_ram_mb div 2;
              allocated_cpus = available_cpus div 2;
              allocated_disk = available_disk_gb div 2
          in seq (logging INFO (''Allocated RAM: '' @ str_int allocated_ram @ ''MB''))
            (seq (logging INFO (''Allocated CPU cores: '' @ str_int allocated_cpus))
            (seq (logging INFO (''Allocated Disk Space: '' @ str_int allocated_disk @ ''GB''))
            (ret (allocated_ram, allocated_cpus, allocated_disk))))))
       (\<lambda>e. fail (''Failed to automatically allocate resources. Error: '' @ str_exn e))"

text \<open>
  \<^verbatim>\<open>resource_assessment\<close>: the host gives \<^verbatim>\<open>MemAvailable\<close> in kB (absent when the field
  is missing from \<^verbatim>\<open>/proc/meminfo\<close>, which raises inside the \<^verbatim>\<open>try\<close>), the CPU count and
  the block size and free blocks of the image directory.
\<close>

definition resource_assessment :: "(int \<times> int \<times> int) io" where
  "resource_assessment w =
     (case mem_available_kb w of
        None \<Rightarrow> fail (''Failed to assess system resources. Error: '' @ [CHR 0x27] @ ''MemAvailable'' @ [CHR 0x27]) w
      | Some kb \<Rightarrow>
          (Inr (kb div 1024, cpu_count w, (f_frsize w * f_bavail w) div (1024 * 1024 * 1024)), w))"

definition auto_or_manual_config :: "string io" where
  "auto_or_manual_config = input ''Do you want to automatically allocate resources? (y/n): ''"

text \<open>\<^verbatim>\<open>int(s)\<close> on a string: blanks around an optional sign and decimal digits.\<close>

definition digit_val :: "char \<Rightarrow> nat option" where
  "digit_val x = (let n = (of_char x :: nat) in if 48 \<le> n \<and> n \<le> 57 then Some (n - 48) else None)"

fun digits_val :: "nat \<Rightarrow> string \<Rightarrow> nat option" where
  "digits_val acc [] = Some acc"
| "digits_val acc (x # xs) =
     (case digit_val x of None \<Rightarrow> None | Some d \<Rightarrow> digits_val (10 * acc + d) xs)"

definition py_int :: "string \<Rightarrow> int io" where
  "py_int s =
     (let t = strip s;
          body = (if t \<noteq> [] \<and> (hd t = CHR ''-'' \<or> hd t = CHR ''+'') then tl t else t)
      in if body = [] then raise (Exception (''invalid literal for int() with base 10: '' @ s))
         else case digits_val 0 body of
                None \<Rightarrow> raise (Exception (''invalid literal for int() with base 10: '' @ s))
              | Some n \<Rightarrow> ret (if hd t = CHR ''-'' then - int n else int n))"

definition manual_allocation :: "int \<Rightarrow> int \<Rightarrow> int \<Rightarrow> (int \<times> int \<times> int) io" where
  "manual_allocation available_ram_mb available_cpus available_disk_gb =
     try_except
       (bind (input (''Enter the amount of RAM to allocate (suggested: ''
                       @ str_int (available_ram_mb div 2) @ ''MB): '')) (\<lambda>s1.
        bind (py_int s1) (\<lambda>allocated_ram.
        bind (input (''Enter the number of CPU cores to allocate (suggested: ''
                       @ str_int (available_cpus div 2) @ ''): '')) (\<lambda>s2.
        bind (py_int s2) (\<lambda>allocated_cpus.
        bind (input (''Enter the amount of disk space to allocate (suggested: ''
                       @ str_int (available_disk_gb div 2) @ ''GB): '')) (\<lambda>s3.
        bind (py_int s3) (\<lambda>allocated_disk.
        seq (if allocated_ram > available_ram_mb \<or> allocated_cpus > available_cpus
                \<or> allocated_disk > available_disk_gb
             then fail ''Invalid resource allocation.''
             else ret ())
            (ret (allocated_ram, allocated_cpus, allocated_disk)))))))))
       (\<lambda>e. fail (''Failed to manually allocate resources. Error: '' @ str_exn e))"

section \<open>Creating the virtual machine\<close>

text \<open>
  \<^verbatim>\<open>get_uefi_path\<close>. The pattern \<^verbatim>\<open>^ID=(.*)$\<close> with \<^verbatim>\<open>re.MULTILINE\<close> finds the first line of
  \<^verbatim>\<open>/etc/os-release\<close> that starts with \<^verbatim>\<open>ID=\<close> and captures the rest of that line; with no
  such line \<^verbatim>\<open>re.search\<close> gives \<^verbatim>\<open>None\<close> and \<^verbatim>\<open>.group\<close> raises \<^verbatim>\<open>AttributeError\<close>.
\<close>

definition search_ID :: "string \<Rightarrow> string option" where
  "search_ID text =
     (case filter (prefix ''ID='') (split_on (CHR 0x0A) text) of
        [] \<Rightarrow> None
      | l # ls \<Rightarrow> Some (drop 3 l))"

definition get_uefi_path :: "string io" where
  "get_uefi_path =
     bind (read_file ''/etc/os-release'') (\<lambda>text.
       case search_ID text of
         None \<Rightarrow> raise (Exception ''NoneType object has no attribute group'')
       | Some DISTRO_NAME \<Rightarrow>
           if DISTRO_NAME \<in> set [''ubuntu'', ''pop'', ''debian'', ''linuxmint'']
           then ret ''/usr/share/OVMF/OVMF_CODE_4M.fd''
           else fail ''Unsupported Linux distribution for UEFI firmware.'')"

text \<open>
  \<^verbatim>\<open>get_cpu_topology\<close>: \<^verbatim>\<open>lscpu\<close> is run with \<^verbatim>\<open>check_output\<close>; the host gives the three
  numbers that the patterns find in its output, or nothing when a field is missing
  (\<^verbatim>\<open>AttributeError\<close>).
\<close>

definition get_cpu_topology :: "(int \<times> int \<times> int) io" where
  "get_cpu_topology =
     bind (check_output [''lscpu'']) (\<lambda>lscpu_output w.
       case lscpu_fields w of
         None \<Rightarrow> (Inl (Exception ''NoneType object has no attribute group''), w)
       | Some t \<Rightarrow> (Inr t, w))"

definition lower_char :: "char \<Rightarrow> char" where
  "lower_char x = (let n = (of_char x :: nat) in if 65 \<le> n \<and> n \<le> 90 then char_of (n + 32) else x)"

definition floordiv :: "int \<Rightarrow> int \<Rightarrow> int io" where
  "floordiv a b = (if b = 0 then raise (Exception ''integer division or modulo by zero'') else ret (a div b))"

definition create_vm :: "string \<Rightarrow> path \<Rightarrow> unit io" where
  "create_vm vm_name iso_path =
     seq (logging INFO (''Attempting to create VM with name: '' @ vm_name @ '', iso_path: '' @ iso_path))
    (bind get_uefi_path (\<lambda>UEFI_PATH.
     seq (\<lambda>w. if \<not> isfile w UEFI_PATH
               then fail (''UEFI firmware not found at specified path: '' @ UEFI_PATH) w
               else ret () w)
    (bind get_cpu_topology (\<lambda>(threads_per_core, sockets, numa_nodes).
     bind resource_assessment (\<lambda>(available_ram_mb, available_cpus, available_disk_gb).
     bind auto_or_manual_config (\<lambda>auto_allocate.
     bind (if map lower_char auto_allocate = ''y''
           then auto_allocation available_ram_mb available_cpus available_disk_gb
           else manual_allocation available_ram_mb available_cpus available_disk_gb)
       (\<lambda>(allocated_ram, allocated_cpus, allocated_disk).
     seq (validate_allocation allocated_ram allocated_cpus allocated_disk
            available_ram_mb available_cpus available_disk_gb)
    (bind (floordiv allocated_cpus threads_per_core) (\<lambda>q.
     bind (floordiv q sockets) (\<lambda>cores.
     seq (run_subprocess
            [''sudo'', ''virt-install'',
             ''--name'', vm_name,
             ''--ram'', str_int allocated_ram,
             ''--vcpus'', str_int allocated_cpus,
             ''--cpu'', ''host,topology.sockets='' @ str_int sockets @ '',topology.cores=''
                        @ str_int cores @ '',topology.threads='' @ str_int threads_per_core,
             ''--os-type'', ''windows'',
             ''--os-variant'', ''win10'',
             ''--network'', ''network=default'',
             ''--graphics'', ''spice'',
             ''--cdrom'', iso_path,
             ''--disk'', ''path=/var/lib/libvirt/images/'' @ vm_name @ ''.img,size=''
                         @ str_int allocated_disk @ '',bus=scsi,format=qcow2,cache=writeback,discard=unmap'',
             ''--controller'', ''type=scsi,model=virtio-scsi'',
             ''--machine'', ''type=pc-q35-6.2'',
             ''--boot'', ''uefi='' @ UEFI_PATH @ '',cdrom,hd'',
             ''--memballoon'', ''model=virtio'']
            ''Failed to create the VM.'')
         (logging INFO (''Successfully created VM with name: '' @ vm_name))))))))))))"

section \<open>The ISO prompt and the main driver\<close>

text \<open>
  The \<^verbatim>\<open>while True\<close> loop of \<^verbatim>\<open>prompt_for_iso_choice\<close>: a line that is not a menu choice
  raises \<^verbatim>\<open>ValueError\<close>, whose message is printed, and the loop asks again. The end of the
  standard input raises \<^verbatim>\<open>EOFError\<close>, which the loop does not catch. Each turn consumes
  a line of the standard input, so the loop ends.
\<close>

function choice_loop :: "string io" where
  "choice_loop w =
     (case input ''Select an option: '' w of
        (Inl e, w') \<Rightarrow> (Inl e, w')
      | (Inr choice, w') \<Rightarrow>
          (if choice \<notin> set [''1'', ''2'', ''3'']
           then choice_loop (snd (print ''Invalid choice, please try again.'' w'))
           else (Inr choice, w')))"
  by pat_completeness auto
termination
  by (relation "measure (\<lambda>w. length (stdin w))")
     (auto simp add: input_def print_def split: list.splits)

definition prompt_for_iso_choice :: "(string \<times> string \<times> string \<times> string) io" where
  "prompt_for_iso_choice =
     seq (for_each print
            [''1. Use your own Windows 10 ISO that has VirtIO drivers installed.'',
             ''2. Use your own Windows 10 ISO that needs to have VirtIO drivers installed.'',
             ''3. Securely download a new Windows 10 ISO and install VirtIO drivers.''])
    (bind choice_loop (\<lambda>choice.
     bind (if choice \<in> set [''1'', ''2'']
           then bind (input ''Please enter the path to the existing ISO: '') (\<lambda>typed w.
                  let iso_ref = expanduser w typed
                  in seq (if \<not> isfile w iso_ref
                          then fail (iso_ref @ '' does not exist. Exiting.'')
                          else ret ())
                         (ret iso_ref) w)
           else ret []) (\<lambda>iso_ref.
     let skip_ref = (if choice = ''1'' then ''true'' else ''false'');
         download_ref = (if choice = ''2'' then ''false'' else ''true'')
     in ret (iso_ref, skip_ref, download_ref, choice))))"

text \<open>
  \<^verbatim>\<open>main\<close>, with the \<^verbatim>\<open>else\<close> branch of the dispatch over the choice as a parameter, so
  that what the driver does can be compared with what it would do with another branch
  there. In the source the branch is \<^verbatim>\<open>self.fail("Invalid choice.")\<close>.
\<close>

definition main_with :: "string io \<Rightarrow> unit io" where
  "main_with otherwise =
     seq (logging INFO ''Starting the main sequence of the script.'')
    (seq (logging INFO ''Prompting for ISO choice.'')
    (bind prompt_for_iso_choice (\<lambda>(provided_win_iso, skip_ref, download_ref, user_choice).
     seq (logging INFO ''Installing required packages.'')
    (seq (install_packages REQUIRED_PACKAGES)
    (seq (logging INFO ''Handling user's ISO choice.'')
    (bind (if user_choice = ''1'' then handle_user_provided_iso provided_win_iso
           else if user_choice = ''2'' then create_iso_with_virtio_from_user_iso provided_win_iso
           else if user_choice = ''3'' then handle_downloaded_iso
           else otherwise) (\<lambda>final_win_iso_path.
     seq setup_libvirt
         (create_vm ''MyVM'' final_win_iso_path))))))))"

definition main :: "unit io" where
  "main = main_with (fail ''Invalid choice.'')"

text \<open>
  The script: \<^verbatim>\<open>Stage1()\<close> makes the temporary directories, then \<^verbatim>\<open>main\<close> runs. The
  process exits with the code of \<open>SystemExit\<close>, with 1 on any other exception that nothing
  caught, and with 0 otherwise.
\<close>

definition script :: "unit io" where
  "script = seq init_temp_dirs main"


section \<open>Hosts used as examples\<close>

text \<open>
  A host on which every command exits with status 0, with an empty file system; the other
  hosts below differ from it in the fields shown.
\<close>

definition quiet_host :: world where
  "quiet_host = \<lparr>files = [], dirs = [], mounts = [],
     temp_dir = ''/tmp/t0'', wimtemp_dir = ''/tmp/t1'', drivers_dir = ''/tmp/t2'',
     windows_dir = ''/tmp/t3'', virtio_mount_dir = ''/tmp/t4'', windows_mount_dir = ''/tmp/t5'',
     tmp_count = 6, stdin = [], stdout = [], log = [], trace = [],
     tool = (\<lambda>n cmd. Exited 0 [] []),
     image_tree = (\<lambda>p. []), mkdtemp = (\<lambda>n. ''/tmp/t'' @ str_nat n), web = (\<lambda>u. None),
     getuser = ''alice'', expanduser = (\<lambda>p. p), urlsplit_path = (\<lambda>u. u),
     copytree_error = (\<lambda>s d. None), unreadable = (\<lambda>p. False), format_exc = [],
     mido_output = None, mem_available_kb = Some 8192000, cpu_count = 4,
     f_frsize = 4096, f_bavail = 26214400, lscpu_fields = Some (2, 1, 1)\<rparr>"

text \<open>A host on which \<^verbatim>\<open>sudo cp\<close> exits with status 1.\<close>

definition cp_fails_host :: world where
  "cp_fails_host = quiet_host\<lparr>
     files := [(''/etc/libvirt/libvirtd.conf'', ''#unix_sock_group = \"libvirt\"'' @ [CHR 0x0A])],
     tool := (\<lambda>n cmd. if take 2 cmd = [''sudo'', ''cp'']
                        then Exited 1 [] ''cp: cannot create regular file''
                        else Exited 0 [] [])\<rparr>"

text \<open>Two hosts that differ in the configuration file: one commented directive on a line
  of its own, and the same directive behind a second comment sign.\<close>

definition commented_host :: world where
  "commented_host = quiet_host\<lparr>
     files := [(''/etc/libvirt/libvirtd.conf'',
                ''# socket group'' @ [CHR 0x0A] @ ''#unix_sock_group = \"libvirt\"'' @ [CHR 0x0A])]\<rparr>"

definition double_hash_host :: world where
  "double_hash_host = quiet_host\<lparr>
     files := [(''/etc/libvirt/libvirtd.conf'', ''##unix_sock_group = \"libvirt\"'' @ [CHR 0x0A])]\<rparr>"

text \<open>The first patch step of \<^verbatim>\<open>modify_and_backup_libvirt_config\<close>.\<close>

definition patch_group :: "unit io" where
  "patch_group = modify_config ''/etc/libvirt/libvirtd.conf''
                   ''#unix_sock_group = \"libvirt\"'' ''unix_sock_group = \"libvirt\"''"



text \<open>Hosts that differ in \<^verbatim>\<open>/etc/os-release\<close> and in the firmware file.\<close>

definition ubuntu_host :: world where
  "ubuntu_host = quiet_host\<lparr>
     files := [(''/etc/os-release'', ''NAME=Ubuntu'' @ [CHR 0x0A] @ ''ID=ubuntu'' @ [CHR 0x0A]
                                      @ ''ID_LIKE=debian'' @ [CHR 0x0A])]\<rparr>"

definition fedora_host :: world where
  "fedora_host = quiet_host\<lparr>
     files := [(''/etc/os-release'', ''NAME=Fedora'' @ [CHR 0x0A] @ ''ID=fedora'' @ [CHR 0x0A]),
               (''/usr/share/OVMF/OVMF_CODE_4M.fd'', ''firmware'')]\<rparr>"

text \<open>A host whose user types two lines that are no menu choice, then a choice and a path.\<close>

definition typing_host :: world where
  "typing_host = quiet_host\<lparr>
     files := [(''/home/alice/win.iso'', ''iso'')],
     stdin := [''4'', ''yes'', ''2'', ''/home/alice/win.iso'']\<rparr>"





section \<open>Notions used in the statements\<close>

text \<open>The \<open>n\<close>-th command of the host, if it is \<open>cmd\<close>, exits with status 0.\<close>

definition exits_zero :: "world \<Rightarrow> nat \<Rightarrow> string list \<Rightarrow> bool" where
  "exits_zero w n cmd = (case tool w n cmd of Exited rc _ _ \<Rightarrow> rc = 0 | SpawnError _ \<Rightarrow> False)"

text \<open>
  Every occurrence of \<open>old\<close> in a text starts a line; the flag says whether the text
  itself starts at the beginning of a line.
\<close>

fun at_line_starts :: "bool \<Rightarrow> string \<Rightarrow> string \<Rightarrow> bool" where
  "at_line_starts b old [] = True"
| "at_line_starts b old (x # xs) =
     ((prefix old (x # xs) \<longrightarrow> b) \<and> at_line_starts (x = CHR 0x0A) old xs)"

text \<open>An operation leaves the two ISO mount points of the \<^verbatim>\<open>Stage1\<close> object as they are.\<close>

definition keeps_dirs :: "'a io \<Rightarrow> bool" where
  "keeps_dirs m = (\<forall>w. virtio_mount_dir (snd (m w)) = virtio_mount_dir w
                      \<and> windows_mount_dir (snd (m w)) = windows_mount_dir w)"


section \<open>Properties\<close>

lemmas io_defs = ret_def raise_def bind_def seq_def try_except_def try_finally_def

subsection \<open>Resource allocation\<close>

text \<open>
  Claim C1. For every allocation triple and availability triple, the allocation validator
  ends the process (exit status 1, after logging the error) if and only if some allocated
  dimension strictly exceeds its available counterpart; within bounds in all three
  dimensions it returns normally and leaves the world unchanged.
\<close>

theorem validate_allocation_iff:
  "(fst (validate_allocation ar ac ad vr vc vd w) = Inl (SystemExit 1)) = (ar > vr \<or> ac > vc \<or> ad > vd)
   \<and> ((\<exists>e. fst (validate_allocation ar ac ad vr vc vd w) = Inl e) = (ar > vr \<or> ac > vc \<or> ad > vd))
   \<and> ((validate_allocation ar ac ad vr vc vd w = (Inr (), w)) = (ar \<le> vr \<and> ac \<le> vc \<and> ad \<le> vd))"
  by (simp add: validate_allocation_def fail_def logging_def io_defs not_le)

text \<open>
  Claim C2. For every availability triple, automatic allocation returns exactly the floor
  division by two of each available quantity; with 8000 MB of RAM available it allocates
  4000 MB.
\<close>

theorem auto_allocation_halves:
  "fst (auto_allocation r c d w) = Inr (r div 2, c div 2, d div 2)
   \<and> fst (auto_allocation 8000 4 100 w) = Inr (4000, 2, 50)"
  by (simp add: auto_allocation_def logging_def io_defs Let_def)

subsection \<open>External commands\<close>





subsection \<open>Unmounting\<close>

text \<open>
  Claim C7. For every path that is not a mount point, \<^verbatim>\<open>unmount\<close> logs a warning and
  returns: no command is run, nothing is raised, and but for the log record the world is
  as it was.
\<close>

theorem unmount_not_mounted:
  "\<not> is_mounted_at w p \<Longrightarrow>
     unmount p w = (Inr (), w\<lparr>log := log w @ [(WARNING, p @ '' is not mounted.'')]\<rparr>)"
  by (simp add: unmount_def is_mounted_def logging_def io_defs)

theorem unmount_not_mounted_witness:
  "\<not> is_mounted_at quiet_host ''/mnt/iso''
   \<and> unmount ''/mnt/iso'' quiet_host
       = (Inr (), quiet_host\<lparr>log := log quiet_host @ [(WARNING, ''/mnt/iso is not mounted.'')]\<rparr>)"
  using unmount_not_mounted [of quiet_host "''/mnt/iso''"]
  by (simp add: is_mounted_at_def quiet_host_def)

subsection \<open>Patching a configuration file\<close>

lemma str_contains_append_skip:
  "hd old \<notin> set u \<Longrightarrow> old \<noteq> [] \<Longrightarrow> str_contains old (u @ t) = str_contains old t"
proof (induction u)
  case Nil
  then show ?case by simp
next
  case (Cons y u)
  then have "\<not> prefix old (y # u @ t)"
    by (cases old) auto
  with Cons show ?case by simp
qed

lemma at_line_starts_weaken: "at_line_starts b old s \<Longrightarrow> at_line_starts True old s"
  by (cases s) auto

lemma at_line_starts_drop:
  "at_line_starts b old s \<Longrightarrow> at_line_starts True old (drop n s)"
proof (induction n arbitrary: b s)
  case 0
  then show ?case by (simp add: at_line_starts_weaken)
next
  case (Suc n)
  then show ?case by (cases s) auto
qed

lemma prefix_replace_from:
  "at_line_starts False old xs \<Longrightarrow> CHR 0x0A \<notin> set r \<Longrightarrow>
   prefix r (replace_from old new xs) \<Longrightarrow> prefix r xs"
proof (induction xs arbitrary: r)
  case Nil
  then show ?case by simp
next
  case (Cons y ys)
  from Cons.prems(1) have nomatch: "\<not> prefix old (y # ys)" and rest: "at_line_starts (y = CHR 0x0A) old ys"
    by auto
  from nomatch have rep: "replace_from old new (y # ys) = y # replace_from old new ys"
    by simp
  show ?case
  proof (cases r)
    case Nil
    then show ?thesis by simp
  next
    case (Cons z r')
    with Cons.prems(3) rep have zy: "z = y" and pr: "prefix r' (replace_from old new ys)"
      by auto
    from Cons Cons.prems(2) zy have "y \<noteq> CHR 0x0A" and "CHR 0x0A \<notin> set r'"
      by auto
    with rest pr Cons.IH [of r'] have "prefix r' ys" by simp
    with Cons zy show ?thesis by simp
  qed
qed

lemma replace_from_no_occurrence:
  "old \<noteq> [] \<Longrightarrow> CHR 0x0A \<notin> set old \<Longrightarrow> hd old \<notin> set new \<Longrightarrow>
   at_line_starts b old s \<Longrightarrow> \<not> str_contains old (replace_from old new s)"
proof (induction old new s arbitrary: b rule: replace_from.induct)
  case (1 old new)
  then show ?case by simp
next
  case (2 old new x xs)
  show ?case
  proof (cases "prefix old (x # xs)")
    case True
    with 2 have "\<not> str_contains old (replace_from old new (drop (length old) (x # xs)))"
      using at_line_starts_drop [of b old "x # xs" "length old"] by blast
    with True 2 show ?thesis
      by (simp add: str_contains_append_skip)
  next
    case False
    from 2 have rest: "at_line_starts (x = CHR 0x0A) old xs" by simp
    with False 2 have ih: "\<not> str_contains old (replace_from old new xs)" by blast
    have "\<not> prefix old (x # replace_from old new xs)"
    proof
      assume p: "prefix old (x # replace_from old new xs)"
      from 2 obtain h r where old: "old = h # r" by (cases old) auto
      with p have xh: "x = h" and pr: "prefix r (replace_from old new xs)" by auto
      from old 2 xh have "x \<noteq> CHR 0x0A" "CHR 0x0A \<notin> set r" by auto
      with rest pr have "prefix r xs" using prefix_replace_from [of old xs r new] by simp
      with old xh False show False by simp
    qed
    with False ih show ?thesis by simp
  qed
qed

lemma sudo_cat_read_ok:
  "exits_zero w (length (trace w)) [''sudo'', ''cat'', p] \<Longrightarrow> map_of (files w) p = Some c \<Longrightarrow>
   sudo_cat_read p w = (Inr c, w\<lparr>trace := trace w @ [[''sudo'', ''cat'', p]]\<rparr>)"
  by (auto simp add: exits_zero_def sudo_cat_read_def subprocess_run_def spawn_process_def
        effect_def tool_stdout_def io_defs Let_def split: spawn.splits)

lemma sudo_tee_write_ok:
  "exits_zero w (length (trace w)) [''sudo'', ''tee'', p] \<Longrightarrow>
   sudo_tee_write p c w = (Inr (), w\<lparr>trace := trace w @ [[''sudo'', ''tee'', p]],
                                       files := write_file p c (files w)\<rparr>)"
  by (auto simp add: exits_zero_def sudo_tee_write_def subprocess_run_def spawn_process_def
        effect_def tool_stdout_def io_defs Let_def split: spawn.splits)

lemma modify_config_found:
  assumes "exits_zero w (length (trace w)) [''sudo'', ''cat'', p]"
    and "exits_zero w (Suc (length (trace w))) [''sudo'', ''tee'', p]"
    and "map_of (files w) p = Some c" and "str_contains old c"
  shows "modify_config p old new w =
     (Inr (), w\<lparr>trace := trace w @ [[''sudo'', ''cat'', p], [''sudo'', ''tee'', p]],
                 files := write_file p (str_replace c old new) (files w),
                 log := log w @ [(INFO, ''Modified '' @ p @ ''.'')]\<rparr>)"
proof -
  let ?w1 = "w\<lparr>trace := trace w @ [[''sudo'', ''cat'', p]]\<rparr>"
  have r: "sudo_cat_read p w = (Inr c, ?w1)"
    using assms(1,3) by (rule sudo_cat_read_ok)
  have "exits_zero ?w1 (length (trace ?w1)) [''sudo'', ''tee'', p]"
    using assms(2) by (simp add: exits_zero_def)
  then have t: "sudo_tee_write p (str_replace c old new) ?w1 =
      (Inr (), ?w1\<lparr>trace := trace ?w1 @ [[''sudo'', ''tee'', p]],
                     files := write_file p (str_replace c old new) (files ?w1)\<rparr>)"
    by (rule sudo_tee_write_ok)
  show ?thesis
    using assms(4) by (simp add: modify_config_def r t logging_def io_defs)
qed

lemma modify_config_not_found:
  assumes "exits_zero w (length (trace w)) [''sudo'', ''cat'', p]"
    and "map_of (files w) p = Some c" and "\<not> str_contains old c"
  shows "modify_config p old new w =
     (Inr (), w\<lparr>trace := trace w @ [[''sudo'', ''cat'', p]],
                 log := log w @ [(WARNING, ''Search string '' @ [CHR 0x27] @ old @ [CHR 0x27]
                                    @ '' not found in '' @ p)]\<rparr>)"
proof -
  have r: "sudo_cat_read p w = (Inr c, w\<lparr>trace := trace w @ [[''sudo'', ''cat'', p]]\<rparr>)"
    using assms(1,2) by (rule sudo_cat_read_ok)
  show ?thesis
    using assms(3) by (simp add: modify_config_def r logging_def io_defs)
qed

text \<open>
  Claim C6, as the code has it. Take a configuration file that contains the search string,
  every occurrence of it at the start of a line, a search string without a line break and
  a replacement without the search string's first character, and let the privileged read
  and write succeed. The patch step replaces every occurrence and writes the file; the
  patched text no longer contains the search string; and a second patch step reads the
  file, logs the warning, writes nothing and returns.
\<close>

theorem modify_config_twice:
  assumes "map_of (files w) p = Some c" and "str_contains old c"
    and "old \<noteq> []" and "CHR 0x0A \<notin> set old" and "hd old \<notin> set new"
    and "at_line_starts True old c"
    and "exits_zero w (length (trace w)) [''sudo'', ''cat'', p]"
    and "exits_zero w (length (trace w) + 1) [''sudo'', ''tee'', p]"
    and "exits_zero w (length (trace w) + 2) [''sudo'', ''cat'', p]"
  shows "fst (modify_config p old new w) = Inr ()
    \<and> map_of (files (snd (modify_config p old new w))) p = Some (str_replace c old new)
    \<and> trace (snd (modify_config p old new w)) = trace w @ [[''sudo'', ''cat'', p], [''sudo'', ''tee'', p]]
    \<and> \<not> str_contains old (str_replace c old new)
    \<and> fst (modify_config p old new (snd (modify_config p old new w))) = Inr ()
    \<and> files (snd (modify_config p old new (snd (modify_config p old new w))))
        = files (snd (modify_config p old new w))
    \<and> trace (snd (modify_config p old new (snd (modify_config p old new w))))
        = trace (snd (modify_config p old new w)) @ [[''sudo'', ''cat'', p]]
    \<and> log (snd (modify_config p old new (snd (modify_config p old new w))))
        = log (snd (modify_config p old new w))
          @ [(WARNING, ''Search string '' @ [CHR 0x27] @ old @ [CHR 0x27] @ '' not found in '' @ p)]"
proof -
  let ?c' = "str_replace c old new"
  let ?w1 = "w\<lparr>trace := trace w @ [[''sudo'', ''cat'', p], [''sudo'', ''tee'', p]],
                 files := write_file p ?c' (files w),
                 log := log w @ [(INFO, ''Modified '' @ p @ ''.'')]\<rparr>"
  have first: "modify_config p old new w = (Inr (), ?w1)"
    using assms(7,8,1,2) by (simp add: modify_config_found)
  have gone: "\<not> str_contains old ?c'"
    using assms(3,4,5,6) by (simp add: str_replace_def replace_from_no_occurrence)
  have cat: "exits_zero ?w1 (length (trace ?w1)) [''sudo'', ''cat'', p]"
    using assms(9) by (simp add: exits_zero_def)
  have content: "map_of (files ?w1) p = Some ?c'"
    by (simp add: write_file_def)
  have second: "modify_config p old new ?w1 =
      (Inr (), ?w1\<lparr>trace := trace ?w1 @ [[''sudo'', ''cat'', p]],
                     log := log ?w1 @ [(WARNING, ''Search string '' @ [CHR 0x27] @ old @ [CHR 0x27]
                                          @ '' not found in '' @ p)]\<rparr>)"
    using cat content gone by (rule modify_config_not_found)
  show ?thesis
    unfolding first snd_conv second using gone content by simp
qed

theorem modify_config_twice_witness:
  "map_of (files commented_host) ''/etc/libvirt/libvirtd.conf''
     = Some (''# socket group'' @ [CHR 0x0A] @ ''#unix_sock_group = \"libvirt\"'' @ [CHR 0x0A])
   \<and> fst (patch_group commented_host) = Inr ()
   \<and> map_of (files (snd (patch_group commented_host))) ''/etc/libvirt/libvirtd.conf''
     = Some (''# socket group'' @ [CHR 0x0A] @ ''unix_sock_group = \"libvirt\"'' @ [CHR 0x0A])
   \<and> fst (patch_group (snd (patch_group commented_host))) = Inr ()
   \<and> files (snd (patch_group (snd (patch_group commented_host)))) = files (snd (patch_group commented_host))"
  using modify_config_twice [of commented_host "''/etc/libvirt/libvirtd.conf''"
      "''# socket group'' @ [CHR 0x0A] @ ''#unix_sock_group = \"libvirt\"'' @ [CHR 0x0A]"
      "''#unix_sock_group = \"libvirt\"''" "''unix_sock_group = \"libvirt\"''"]
  by (simp add: commented_host_def quiet_host_def patch_group_def exits_zero_def str_replace_def)

text \<open>
  Claim C6 as stated fails when the directive stands behind a second comment sign: the
  first patch step leaves the search string in the file, and the second one changes the
  file again.
\<close>

theorem modify_config_twice_counterexample:
  "str_contains ''#unix_sock_group = \"libvirt\"'' (''##unix_sock_group = \"libvirt\"'' @ [CHR 0x0A])
   \<and> map_of (files double_hash_host) ''/etc/libvirt/libvirtd.conf''
        = Some (''##unix_sock_group = \"libvirt\"'' @ [CHR 0x0A])
   \<and> map_of (files (snd (patch_group double_hash_host))) ''/etc/libvirt/libvirtd.conf''
        = Some (''#unix_sock_group = \"libvirt\"'' @ [CHR 0x0A])
   \<and> map_of (files (snd (patch_group (snd (patch_group double_hash_host))))) ''/etc/libvirt/libvirtd.conf''
        = Some (''unix_sock_group = \"libvirt\"'' @ [CHR 0x0A])"
  by code_simp
subsection \<open>Backing up a configuration file\<close>

text \<open>
  Claim C4 at a host where \<^verbatim>\<open>sudo cp\<close> exits with status 1: the libvirt configuration is
  patched and extended, the method returns, and there is no backup file.
\<close>

theorem backup_failure_not_fatal:
  "tool cp_fails_host 0 [''sudo'', ''cp'', ''/etc/libvirt/libvirtd.conf'', ''/etc/libvirt/libvirtd.conf.backup'']
     = Exited 1 [] ''cp: cannot create regular file''
   \<and> fst (modify_and_backup_libvirt_config cp_fails_host) = Inr ()
   \<and> map_of (files (snd (modify_and_backup_libvirt_config cp_fails_host)))
        ''/etc/libvirt/libvirtd.conf.backup'' = None
   \<and> map_of (files (snd (modify_and_backup_libvirt_config cp_fails_host)))
        ''/etc/libvirt/libvirtd.conf''
      = Some (''unix_sock_group = \"libvirt\"'' @ [CHR 0x0A] @ additional_settings)
   \<and> trace (snd (modify_and_backup_libvirt_config cp_fails_host))
      = [[''sudo'', ''cp'', ''/etc/libvirt/libvirtd.conf'', ''/etc/libvirt/libvirtd.conf.backup''],
         [''sudo'', ''cat'', ''/etc/libvirt/libvirtd.conf''],
         [''sudo'', ''tee'', ''/etc/libvirt/libvirtd.conf''],
         [''sudo'', ''cat'', ''/etc/libvirt/libvirtd.conf''],
         [''sudo'', ''tee'', ''-a'', ''/etc/libvirt/libvirtd.conf'']]"
  by code_simp

subsection \<open>The firmware path\<close>

text \<open>
  Claim C9. Let the first line of \<^verbatim>\<open>/etc/os-release\<close> that starts with \<^verbatim>\<open>ID=\<close> give the
  identifier \<open>d\<close>. If \<open>d\<close> is one of ubuntu, pop, debian, linuxmint, \<^verbatim>\<open>get_uefi_path\<close>
  returns \<^verbatim>\<open>/usr/share/OVMF/OVMF_CODE_4M.fd\<close>; for every other identifier it logs the
  error and exits with status 1; and with a supported identifier but no firmware file at
  that path, \<^verbatim>\<open>create_vm\<close> logs the error and exits with status 1 before any command is
  run.
\<close>

theorem get_uefi_path_resolution:
  assumes "map_of (files w) ''/etc/os-release'' = Some text"
    and "\<not> unreadable w ''/etc/os-release''"
    and "search_ID text = Some d"
  shows "(d \<in> set [''ubuntu'', ''pop'', ''debian'', ''linuxmint''] \<longrightarrow>
            get_uefi_path w = (Inr ''/usr/share/OVMF/OVMF_CODE_4M.fd'', w))
       \<and> (d \<notin> set [''ubuntu'', ''pop'', ''debian'', ''linuxmint''] \<longrightarrow>
            get_uefi_path w
              = (Inl (SystemExit 1),
                 w\<lparr>log := log w @ [(ERROR, ''Unsupported Linux distribution for UEFI firmware.'')]\<rparr>))
       \<and> (d \<in> set [''ubuntu'', ''pop'', ''debian'', ''linuxmint''] \<longrightarrow>
            \<not> isfile w ''/usr/share/OVMF/OVMF_CODE_4M.fd'' \<longrightarrow>
            create_vm vm_name iso_path w
              = (Inl (SystemExit 1),
                 w\<lparr>log := log w @
                    [(INFO, ''Attempting to create VM with name: '' @ vm_name @ '', iso_path: '' @ iso_path),
                     (ERROR, ''UEFI firmware not found at specified path: /usr/share/OVMF/OVMF_CODE_4M.fd'')]\<rparr>))"
proof -
  have g: "get_uefi_path w' =
      (if d \<in> set [''ubuntu'', ''pop'', ''debian'', ''linuxmint'']
       then (Inr ''/usr/share/OVMF/OVMF_CODE_4M.fd'', w')
       else (Inl (SystemExit 1),
             w'\<lparr>log := log w' @ [(ERROR, ''Unsupported Linux distribution for UEFI firmware.'')]\<rparr>))"
    if "files w' = files w" and "unreadable w' = unreadable w" for w'
    using assms that
    by (simp add: get_uefi_path_def read_file_def fail_def logging_def io_defs)
  have v: "create_vm vm_name iso_path w
      = (Inl (SystemExit 1),
         w\<lparr>log := log w @
            [(INFO, ''Attempting to create VM with name: '' @ vm_name @ '', iso_path: '' @ iso_path),
             (ERROR, ''UEFI firmware not found at specified path: /usr/share/OVMF/OVMF_CODE_4M.fd'')]\<rparr>)"
    if "d \<in> set [''ubuntu'', ''pop'', ''debian'', ''linuxmint'']"
      and "\<not> isfile w ''/usr/share/OVMF/OVMF_CODE_4M.fd''"
  proof -
    let ?w1 = "w\<lparr>log := log w @ [(INFO, ''Attempting to create VM with name: '' @ vm_name
                                       @ '', iso_path: '' @ iso_path)]\<rparr>"
    have "get_uefi_path ?w1 = (Inr ''/usr/share/OVMF/OVMF_CODE_4M.fd'', ?w1)"
      using g [of ?w1] that(1) by simp
    moreover have "\<not> isfile ?w1 ''/usr/share/OVMF/OVMF_CODE_4M.fd''"
      using that(2) by (simp add: isfile_def)
    ultimately show ?thesis
      by (simp add: create_vm_def logging_def fail_def bind_def seq_def raise_def ret_def)
  qed
  show ?thesis
    using g [of w] v by simp
qed

theorem get_uefi_path_resolution_witness:
  "search_ID (''NAME=Ubuntu'' @ [CHR 0x0A] @ ''ID=ubuntu'' @ [CHR 0x0A] @ ''ID_LIKE=debian'' @ [CHR 0x0A])
     = Some ''ubuntu''
   \<and> get_uefi_path ubuntu_host = (Inr ''/usr/share/OVMF/OVMF_CODE_4M.fd'', ubuntu_host)
   \<and> \<not> isfile ubuntu_host ''/usr/share/OVMF/OVMF_CODE_4M.fd''
   \<and> fst (create_vm ''MyVM'' ''win.iso'' ubuntu_host) = Inl (SystemExit 1)
   \<and> search_ID (''NAME=Fedora'' @ [CHR 0x0A] @ ''ID=fedora'' @ [CHR 0x0A]) = Some ''fedora''
   \<and> fst (get_uefi_path fedora_host) = Inl (SystemExit 1)"
  using get_uefi_path_resolution [of ubuntu_host
          "''NAME=Ubuntu'' @ [CHR 0x0A] @ ''ID=ubuntu'' @ [CHR 0x0A] @ ''ID_LIKE=debian'' @ [CHR 0x0A]"
          "''ubuntu''" "''MyVM''" "''win.iso''"]
        get_uefi_path_resolution [of fedora_host
          "''NAME=Fedora'' @ [CHR 0x0A] @ ''ID=fedora'' @ [CHR 0x0A]" "''fedora''"]
  by (simp add: ubuntu_host_def fedora_host_def quiet_host_def search_ID_def isfile_def)

subsection \<open>The menu choice\<close>

lemma choice_loop_valid:
  "choice_loop w = (Inr choice, w') \<Longrightarrow> choice \<in> set [''1'', ''2'', ''3'']"
proof (induction w rule: choice_loop.induct)
  case (1 w)
  obtain r w1 where i: "input ''Select an option: '' w = (r, w1)" by force
  show ?case
  proof (cases r)
    case (Inl e)
    with 1(2) i show ?thesis by (subst (asm) choice_loop.simps) simp
  next
    case (Inr c)
    show ?thesis
    proof (cases "c \<in> set [''1'', ''2'', ''3'']")
      case True
      with 1(2) i Inr show ?thesis by (subst (asm) choice_loop.simps) auto
    next
      case False
      with 1(2) i Inr
      have "choice_loop (snd (print ''Invalid choice, please try again.'' w1)) = (Inr choice, w')"
        by (subst (asm) choice_loop.simps) simp
      with 1(1) [OF i [symmetric] Inr False] show ?thesis by simp
    qed
  qed
qed

lemma bind_cong_at:
  "(\<And>x w'. m w = (Inr x, w') \<Longrightarrow> f x w' = g x w') \<Longrightarrow> bind m f w = bind m g w"
  by (simp add: bind_def split: prod.splits sum.splits)

lemma seq_cong_at:
  "(\<And>x w'. m w = (Inr x, w') \<Longrightarrow> n w' = n' w') \<Longrightarrow> seq m n w = seq m n' w"
  unfolding seq_def by (rule bind_cong_at)

lemma prompt_choice_valid:
  assumes "prompt_for_iso_choice w = (Inr (iso_ref, skip_ref, download_ref, choice), w')"
  shows "choice \<in> set [''1'', ''2'', ''3'']"
proof -
  obtain r0 w0 where p: "for_each print
            [''1. Use your own Windows 10 ISO that has VirtIO drivers installed.'',
             ''2. Use your own Windows 10 ISO that needs to have VirtIO drivers installed.'',
             ''3. Securely download a new Windows 10 ISO and install VirtIO drivers.''] w = (r0, w0)"
    by force
  obtain r1 w1 where l: "choice_loop w0 = (r1, w1)" by force
  show ?thesis
  proof (cases r0)
    case (Inl e)
    with assms p show ?thesis
      unfolding prompt_for_iso_choice_def seq_def bind_def by simp
  next
    case a: (Inr u)
    show ?thesis
    proof (cases r1)
      case (Inl e)
      with assms p l a show ?thesis
        unfolding prompt_for_iso_choice_def seq_def bind_def by simp
    next
      case (Inr c)
      with l have "choice_loop w0 = (Inr c, w1)" by simp
      then have v: "c \<in> set [''1'', ''2'', ''3'']" by (rule choice_loop_valid)
      from assms p l a Inr have "choice = c"
        unfolding prompt_for_iso_choice_def seq_def bind_def ret_def Let_def
        by (auto split: prod.splits sum.splits if_splits)
      with v show ?thesis by simp
    qed
  qed
qed

text \<open>
  Claim C10. The choice that \<^verbatim>\<open>prompt_for_iso_choice\<close> returns is one of "1", "2", "3";
  so the \<^verbatim>\<open>else\<close> branch of the dispatch in \<^verbatim>\<open>main\<close> is never taken: whatever stands
  there, the driver does the same.
\<close>

theorem invalid_choice_unreachable:
  "(prompt_for_iso_choice w = (Inr (iso_ref, skip_ref, download_ref, choice), w')
      \<longrightarrow> choice \<in> set [''1'', ''2'', ''3''])
   \<and> main_with otherwise w = main w"
proof -
  have "main_with otherwise w = main_with (fail ''Invalid choice.'') w"
    unfolding main_with_def
  proof (rule seq_cong_at, rule seq_cong_at, rule bind_cong_at)
    fix x :: "string \<times> string \<times> string \<times> string" and w2 w3 w4 :: world and u1 u2 :: unit
    assume "prompt_for_iso_choice w3 = (Inr x, w4)"
    then have "snd (snd (snd x)) \<in> set [''1'', ''2'', ''3'']"
      using prompt_choice_valid [of w3 "fst x" "fst (snd x)" "fst (snd (snd x))" "snd (snd (snd x))" w4]
      by (cases x) auto
    then show "(case x of (provided_win_iso, skip_ref, download_ref, user_choice) \<Rightarrow>
          seq (logging INFO ''Installing required packages.'')
         (seq (install_packages REQUIRED_PACKAGES)
         (seq (logging INFO ''Handling user's ISO choice.'')
         (bind (if user_choice = ''1'' then handle_user_provided_iso provided_win_iso
                else if user_choice = ''2'' then create_iso_with_virtio_from_user_iso provided_win_iso
                else if user_choice = ''3'' then handle_downloaded_iso
                else otherwise) (\<lambda>final_win_iso_path.
          seq setup_libvirt
              (create_vm ''MyVM'' final_win_iso_path)))))) w4
      = (case x of (provided_win_iso, skip_ref, download_ref, user_choice) \<Rightarrow>
          seq (logging INFO ''Installing required packages.'')
         (seq (install_packages REQUIRED_PACKAGES)
         (seq (logging INFO ''Handling user's ISO choice.'')
         (bind (if user_choice = ''1'' then handle_user_provided_iso provided_win_iso
                else if user_choice = ''2'' then create_iso_with_virtio_from_user_iso provided_win_iso
                else if user_choice = ''3'' then handle_downloaded_iso
                else fail ''Invalid choice.'') (\<lambda>final_win_iso_path.
          seq setup_libvirt
              (create_vm ''MyVM'' final_win_iso_path)))))) w4"
      by (cases x) auto
  qed
  then show ?thesis
    using prompt_choice_valid [of w iso_ref skip_ref download_ref choice w']
    by (simp add: main_def)
qed

theorem invalid_choice_unreachable_witness:
  "fst (prompt_for_iso_choice typing_host) = Inr (''/home/alice/win.iso'', ''false'', ''false'', ''2'')
   \<and> ''2'' \<in> set [''1'', ''2'', ''3'']
   \<and> main_with (ret ''other.iso'') typing_host = main typing_host"
proof -
  have r: "fst (prompt_for_iso_choice typing_host) = Inr (''/home/alice/win.iso'', ''false'', ''false'', ''2'')"
    by code_simp
  then obtain w' where "prompt_for_iso_choice typing_host
      = (Inr (''/home/alice/win.iso'', ''false'', ''false'', ''2''), w')"
    by (cases "prompt_for_iso_choice typing_host") auto
  with invalid_choice_unreachable [of typing_host "''/home/alice/win.iso''" "''false''" "''false''" "''2''" w'
      "ret ''other.iso''"] r
  show ?thesis by simp
qed
subsection \<open>The composite ISO and its mounts\<close>

lemma keeps_ret [simp]: "keeps_dirs (ret x)"
  by (simp add: keeps_dirs_def ret_def)

lemma keeps_raise [simp]: "keeps_dirs (raise e)"
  by (simp add: keeps_dirs_def raise_def)

lemma keeps_bind: "keeps_dirs m \<Longrightarrow> (\<And>x. keeps_dirs (f x)) \<Longrightarrow> keeps_dirs (bind m f)"
  unfolding keeps_dirs_def bind_def
  by (auto split: prod.splits sum.splits) (metis snd_conv)+

lemma keeps_seq: "keeps_dirs m \<Longrightarrow> keeps_dirs n \<Longrightarrow> keeps_dirs (seq m n)"
  by (simp add: seq_def keeps_bind)





lemma keeps_logging [simp]: "keeps_dirs (logging lv msg)"
  by (simp add: keeps_dirs_def logging_def)

lemma keeps_fail [simp]: "keeps_dirs (fail msg)"
  by (simp add: fail_def keeps_seq)

lemma keeps_fail_exc [simp]: "keeps_dirs (fail_exc msg e)"
  by (simp add: keeps_dirs_def fail_exc_def logging_def io_defs)

lemma effect_dirs:
  "virtio_mount_dir (effect cmd inp w) = virtio_mount_dir w"
  "windows_mount_dir (effect cmd inp w) = windows_mount_dir w"
  by (simp_all add: effect_def split: option.splits)

lemma keeps_subprocess_run [simp]: "keeps_dirs (subprocess_run cmd inp chk)"
  by (simp add: keeps_dirs_def subprocess_run_def spawn_process_def io_defs Let_def effect_dirs
      split: spawn.splits)

lemma keeps_run_subprocess [simp]: "keeps_dirs (run_subprocess cmd msg)"
proof -
  have "virtio_mount_dir (snd (run_subprocess cmd msg w)) = virtio_mount_dir w
      \<and> windows_mount_dir (snd (run_subprocess cmd msg w)) = windows_mount_dir w" for w
    using keeps_subprocess_run [of cmd "[]" True]
    unfolding keeps_dirs_def run_subprocess_def
    by (auto simp add: logging_def io_defs split: prod.splits sum.splits exn.splits) (metis snd_conv)+
  then show ?thesis by (simp add: keeps_dirs_def)
qed

lemma keeps_any_iterdir [simp]: "keeps_dirs (any_iterdir p)"
  by (simp add: keeps_dirs_def any_iterdir_def)

lemma keeps_is_mounted [simp]: "keeps_dirs (is_mounted p)"
  by (simp add: keeps_dirs_def is_mounted_def)

lemma keeps_rmtree [simp]: "keeps_dirs (rmtree p)"
  by (simp add: keeps_dirs_def rmtree_def)

lemma keeps_makedirs [simp]: "keeps_dirs (makedirs p)"
  by (simp add: keeps_dirs_def makedirs_def)

























subsection \<open>The three ISO modes\<close>










end
